theory Spec2Isabelle
  imports Complex_Main
begin

section \<open>Errors and helpers\<close>

text \<open>
  The exceptions that the modelled code can raise.  \<open>ZeroDivisionError\<close> and
  \<open>ValueError\<close> come from Python's scalar arithmetic (\<open>max_distance / max_exact\<close>,
  \<open>math.log\<close>), \<open>IndexError\<close> from an embedding lookup outside its table and
  \<open>ShapeError\<close> from tensor operations on operands whose shapes do not fit.
  \<open>UndefinedConversion\<close> is not an exception: it marks a float-to-long conversion
  of an infinity or a NaN, whose result the tensor library leaves undefined.
\<close>

datatype error = ZeroDivisionError | ValueError | IndexError | ShapeError | UndefinedConversion

text \<open>Running a fallible function over a list stops at the first error.\<close>

fun traverse :: "('a \<Rightarrow> error + 'b) \<Rightarrow> 'a list \<Rightarrow> error + 'b list" where
  "traverse f [] = Inr []"
| "traverse f (x # xs) =
     (case f x of
        Inl e \<Rightarrow> Inl e
      | Inr y \<Rightarrow> (case traverse f xs of Inl e \<Rightarrow> Inl e | Inr ys \<Rightarrow> Inr (y # ys)))"

text \<open>\<open>def exists(val)\<close> and \<open>def default(val, d)\<close>: an optional argument is an
  \<open>option\<close>; the default is only built when the value is absent.\<close>

definition exists :: "'a option \<Rightarrow> bool" where
  "exists val = (val \<noteq> None)"

definition default :: "'a option \<Rightarrow> 'a \<Rightarrow> 'a" where
  "default val d = (case val of Some v \<Rightarrow> v | None \<Rightarrow> d)"

section \<open>RelativePositionBias\<close>

text \<open>
  Position tensors have dtype \<open>torch.long\<close>: a value is an integer in
  \<open>[-2^63, 2^63)\<close> and arithmetic wraps around.
\<close>

definition wrap64 :: "int \<Rightarrow> int" where
  "wrap64 x = (x + 2 ^ 63) mod 2 ^ 64 - 2 ^ 63"


text \<open>\<open>.long()\<close> on a float truncates towards zero.\<close>

definition to_long :: "real \<Rightarrow> int" where
  "to_long r = (if 0 \<le> r then \<lfloor>r\<rfloor> else \<lceil>r\<rceil>)"

text \<open>
  \<open>math.log(max_distance / max_exact)\<close>: Python's true division raises on a zero
  divisor and \<open>math.log\<close> raises on an argument that is not positive.
\<close>

definition py_log_ratio :: "int \<Rightarrow> int \<Rightarrow> error + real" where
  "py_log_ratio max_distance max_exact =
     (if max_exact = 0 then Inl ZeroDivisionError
      else if real_of_int max_distance / real_of_int max_exact \<le> 0 then Inl ValueError
      else Inr (ln (real_of_int max_distance / real_of_int max_exact)))"

text \<open>
  The elementwise part of \<open>_relative_position_bucket\<close>, for one entry of
  \<open>relative_position\<close>.  \<open>num_buckets\<close> is the value after the halving of the causal
  branch and \<open>log_ratio\<close> the value of \<open>math.log(max_distance / max_exact)\<close>.
  The float stage (\<open>n.float()\<close>, \<open>torch.log\<close>, the division, the product and the
  conversion back) is taken in exact real arithmetic.  \<open>torch.where\<close> selects
  elementwise, so \<open>val_if_large\<close> matters only where \<open>is_small\<close> is false; there a
  logarithm of a non-positive number or a division by a zero \<open>log_ratio\<close> gives
  an infinity or a NaN, and the conversion to long is undefined.
\<close>

definition bucket_entry :: "bool \<Rightarrow> int \<Rightarrow> int \<Rightarrow> real \<Rightarrow> int \<Rightarrow> error + int" where
  "bucket_entry causal num_buckets max_exact log_ratio relative_position =
     (let n = wrap64 (- relative_position);
          ret = (if causal then (if n < 0 then 1 else 0) * num_buckets else 0);
          n = (if causal then wrap64 \<bar>n\<bar> else max n 0);
          is_small = (n < max_exact)
      in if is_small then Inr (wrap64 (ret + n))
         else if real_of_int n / real_of_int max_exact \<le> 0 \<or> log_ratio = 0
           then Inl UndefinedConversion
         else
           (let val_if_large = max_exact +
                  to_long (ln (real_of_int n / real_of_int max_exact) / log_ratio
                           * real_of_int (num_buckets - max_exact));
                val_if_large = min val_if_large (num_buckets - 1)
            in Inr (wrap64 (ret + val_if_large))))"

text \<open>
  \<open>_relative_position_bucket(relative_position, causal, num_buckets, max_distance)\<close>
  on a matrix of offsets.  The scalar prelude runs once, so its exceptions are
  raised for an empty matrix as well.
\<close>

definition relative_position_bucket ::
  "int list list \<Rightarrow> bool \<Rightarrow> int \<Rightarrow> int \<Rightarrow> error + int list list" where
  "relative_position_bucket relative_position causal num_buckets max_distance =
     (let num_buckets = (if causal then num_buckets div 2 else num_buckets);
          max_exact = num_buckets div 2
      in case py_log_ratio max_distance max_exact of
           Inl e \<Rightarrow> Inl e
         | Inr log_ratio \<Rightarrow>
             traverse (traverse (bucket_entry causal num_buckets max_exact log_ratio))
               relative_position)"




section \<open>Float values\<close>

text \<open>
  A tensor entry is a real number or one of the special values of the float
  format.  Arithmetic on real numbers is exact (no rounding, no overflow); the
  special values follow IEEE 754, with zero taken as positive zero.  The negative
  infinity enters through \<open>masked_fill_(mask, float('-inf'))\<close>, and a NaN through
  \<open>-inf - (-inf)\<close> in the softmax of a row that is \<open>-inf\<close> throughout.
\<close>

datatype fl = Fin real | PInf | NInf | NaN

fun fneg :: "fl \<Rightarrow> fl" where
  "fneg (Fin a) = Fin (- a)"
| "fneg PInf = NInf"
| "fneg NInf = PInf"
| "fneg NaN = NaN"

fun fadd :: "fl \<Rightarrow> fl \<Rightarrow> fl" where
  "fadd (Fin a) (Fin b) = Fin (a + b)"
| "fadd NaN _ = NaN"
| "fadd _ NaN = NaN"
| "fadd PInf NInf = NaN"
| "fadd NInf PInf = NaN"
| "fadd PInf _ = PInf"
| "fadd _ PInf = PInf"
| "fadd NInf _ = NInf"
| "fadd _ NInf = NInf"

definition fsub :: "fl \<Rightarrow> fl \<Rightarrow> fl" where
  "fsub a b = fadd a (fneg b)"

fun fmul :: "fl \<Rightarrow> fl \<Rightarrow> fl" where
  "fmul (Fin a) (Fin b) = Fin (a * b)"
| "fmul NaN _ = NaN"
| "fmul _ NaN = NaN"
| "fmul (Fin a) PInf = (if a = 0 then NaN else if 0 < a then PInf else NInf)"
| "fmul (Fin a) NInf = (if a = 0 then NaN else if 0 < a then NInf else PInf)"
| "fmul PInf (Fin b) = (if b = 0 then NaN else if 0 < b then PInf else NInf)"
| "fmul NInf (Fin b) = (if b = 0 then NaN else if 0 < b then NInf else PInf)"
| "fmul PInf PInf = PInf"
| "fmul PInf NInf = NInf"
| "fmul NInf PInf = NInf"
| "fmul NInf NInf = PInf"

fun fdiv :: "fl \<Rightarrow> fl \<Rightarrow> fl" where
  "fdiv (Fin a) (Fin b) =
     (if b \<noteq> 0 then Fin (a / b) else if a = 0 then NaN else if 0 < a then PInf else NInf)"
| "fdiv NaN _ = NaN"
| "fdiv _ NaN = NaN"
| "fdiv (Fin a) PInf = Fin 0"
| "fdiv (Fin a) NInf = Fin 0"
| "fdiv PInf (Fin b) = (if 0 \<le> b then PInf else NInf)"
| "fdiv NInf (Fin b) = (if 0 \<le> b then NInf else PInf)"
| "fdiv PInf PInf = NaN"
| "fdiv PInf NInf = NaN"
| "fdiv NInf PInf = NaN"
| "fdiv NInf NInf = NaN"

fun fexp :: "fl \<Rightarrow> fl" where
  "fexp (Fin a) = Fin (exp a)"
| "fexp PInf = PInf"
| "fexp NInf = Fin 0"
| "fexp NaN = NaN"

fun fsqrt :: "fl \<Rightarrow> fl" where
  "fsqrt (Fin a) = (if 0 \<le> a then Fin (sqrt a) else NaN)"
| "fsqrt PInf = PInf"
| "fsqrt NInf = NaN"
| "fsqrt NaN = NaN"

text \<open>The maximum of two values; a NaN wins, as in \<open>torch.max\<close> and \<open>clamp\<close>.\<close>

fun fmax :: "fl \<Rightarrow> fl \<Rightarrow> fl" where
  "fmax (Fin a) (Fin b) = Fin (max a b)"
| "fmax NaN _ = NaN"
| "fmax _ NaN = NaN"
| "fmax PInf _ = PInf"
| "fmax _ PInf = PInf"
| "fmax NInf y = y"
| "fmax x NInf = x"

definition fsum :: "fl list \<Rightarrow> fl" where
  "fsum xs = foldr fadd xs (Fin 0)"

text \<open>
  \<open>softmax(dim = -1)\<close> on one row, the way the tensor library computes it: the
  row's maximum is subtracted before the exponential.
\<close>

definition softmax :: "fl list \<Rightarrow> fl list" where
  "softmax xs =
     (case xs of
        [] \<Rightarrow> []
      | x # rest \<Rightarrow>
          (let m = fold fmax rest x;
               es = map (\<lambda>y. fexp (fsub y m)) xs;
               s = fsum es
           in map (\<lambda>e. fdiv e s) es))"

section \<open>Tensors\<close>

text \<open>
  A tensor is a nested list, rectangular: a vector of features, a matrix
  (sequence by features), a rank-3 tensor (batch, sequence, features) and a
  rank-4 tensor of attention logits (batch, heads, queries, keys).  An axis of
  length 0 hides the lengths of the axes below it; nothing is stored there.
\<close>

type_synonym vec = "fl list"
type_synonym mat = "fl list list"
type_synonym tensor3 = "fl list list list"
type_synonym tensor4 = "fl list list list list"

definition and_then :: "error + 'a \<Rightarrow> ('a \<Rightarrow> error + 'b) \<Rightarrow> error + 'b" where
  "and_then m f = (case m of Inl e \<Rightarrow> Inl e | Inr v \<Rightarrow> f v)"

text \<open>
  Broadcasting along one axis.  \<open>broadcast2\<close> pairs two operands of an
  out-of-place operation: the lengths agree, or one of them is 1 and that
  operand is repeated.  \<open>expand_to\<close> fits the second operand of an in-place
  operation to the length of the first.
\<close>

definition broadcast2 :: "'a list \<Rightarrow> 'b list \<Rightarrow> error + ('a \<times> 'b) list" where
  "broadcast2 xs ys =
     (if length xs = length ys then Inr (zip xs ys)
      else if length xs = 1 then Inr (zip (replicate (length ys) (hd xs)) ys)
      else if length ys = 1 then Inr (zip xs (replicate (length xs) (hd ys)))
      else Inl ShapeError)"

definition expand_to :: "nat \<Rightarrow> 'a list \<Rightarrow> error + 'a list" where
  "expand_to n xs =
     (if length xs = n then Inr xs
      else if length xs = 1 then Inr (replicate n (hd xs))
      else Inl ShapeError)"

definition seq_len :: "'a list list \<Rightarrow> nat" where
  "seq_len x = (case x of [] \<Rightarrow> 0 | s # _ \<Rightarrow> length s)"

text \<open>\<open>x.chunk(2, dim = -1)\<close> unpacked into two names: a last axis of length 1 gives
  a single chunk and the unpacking fails.\<close>

definition chunk2 :: "'a list \<Rightarrow> error + ('a list \<times> 'a list)" where
  "chunk2 v =
     (if length v = 1 then Inl ValueError
      else Inr (take ((length v + 1) div 2) v, drop ((length v + 1) div 2) v))"

text \<open>Elementwise sum of two rank-3 tensors, as in the residual \<open>f(x) + x\<close>.\<close>

definition tensor_add :: "tensor3 \<Rightarrow> tensor3 \<Rightarrow> error + tensor3" where
  "tensor_add s t =
     and_then (broadcast2 s t)
       (traverse (\<lambda>(sm, tm).
          and_then (broadcast2 sm tm)
            (traverse (\<lambda>(sv, tv).
               and_then (broadcast2 sv tv) (\<lambda>ps. Inr (map (\<lambda>(p, q). fadd p q) ps))))))"

section \<open>Library modules: Linear and Embedding\<close>

text \<open>
  \<open>nn.Linear(in_features, out_features, bias)\<close> with its learned parameters, which
  are finite reals: \<open>weight\<close> has \<open>out_features\<close> rows of length \<open>in_features\<close>.
\<close>

record linear =
  in_features :: nat
  out_features :: nat
  weight :: "real list list"
  bias :: "real list option"

definition linear_wf :: "linear \<Rightarrow> bool" where
  "linear_wf l =
     (length (weight l) = out_features l \<and>
      list_all (\<lambda>row. length row = in_features l) (weight l) \<and>
      (case bias l of None \<Rightarrow> True | Some b \<Rightarrow> length b = out_features l))"

definition dot :: "real list \<Rightarrow> vec \<Rightarrow> fl" where
  "dot row v = fsum (map2 (\<lambda>w x. fmul x (Fin w)) row v)"

definition linear_apply :: "linear \<Rightarrow> vec \<Rightarrow> error + vec" where
  "linear_apply l v =
     (if length v \<noteq> in_features l then Inl ShapeError
      else Inr (case bias l of
                  None \<Rightarrow> map (\<lambda>row. dot row v) (weight l)
                | Some b \<Rightarrow> map2 (\<lambda>row c. fadd (dot row v) (Fin c)) (weight l) b))"

definition linear_forward :: "linear \<Rightarrow> tensor3 \<Rightarrow> error + tensor3" where
  "linear_forward l x = traverse (traverse (linear_apply l)) x"

text \<open>\<open>nn.Embedding(num_embeddings, embedding_dim)\<close>: a table of rows, looked up by
  index.\<close>

record embedding =
  num_embeddings :: nat
  embedding_dim :: nat
  emb_weight :: "real list list"

definition embedding_wf :: "embedding \<Rightarrow> bool" where
  "embedding_wf e =
     (length (emb_weight e) = num_embeddings e \<and>
      list_all (\<lambda>row. length row = embedding_dim e) (emb_weight e))"

definition embedding_lookup :: "embedding \<Rightarrow> int \<Rightarrow> error + real list" where
  "embedding_lookup e i =
     (if 0 \<le> i \<and> i < int (num_embeddings e) then Inr (emb_weight e ! nat i)
      else Inl IndexError)"

section \<open>RelativePositionBias: the module\<close>

text \<open>
  \<open>class RelativePositionBias\<close>: the attributes set by \<open>__init__\<close>;
  \<open>relative_attention_bias\<close> is \<open>nn.Embedding(num_buckets, heads)\<close>.
\<close>

record relative_position_bias =
  rp_causal :: bool
  rp_num_buckets :: int
  rp_max_distance :: int
  relative_attention_bias :: embedding

definition relative_position_bias_wf :: "relative_position_bias \<Rightarrow> bool" where
  "relative_position_bias_wf r =
     (embedding_wf (relative_attention_bias r) \<and>
      int (num_embeddings (relative_attention_bias r)) = rp_num_buckets r)"

text \<open>\<open>qk_dots.shape[-2:]\<close>.\<close>

definition shape_ij :: "'a list list list list \<Rightarrow> nat \<times> nat" where
  "shape_ij t =
     (case t of
        [] \<Rightarrow> (0, 0)
      | b # _ \<Rightarrow>
          (case b of
             [] \<Rightarrow> (0, 0)
           | m # _ \<Rightarrow> (length m, seq_len m)))"

text \<open>
  \<open>RelativePositionBias.forward(qk_dots)\<close>.  The call of the bucketing function
  passes \<open>causal\<close> and \<open>num_buckets\<close> only, so \<open>max_distance\<close> is the default 128 of
  the static method.  \<open>rearrange(values, 'i j h -> () h i j')\<close> gives one bias
  matrix per column of the table, and the sum broadcasts over the batch axis and
  over a head axis of length 1.
\<close>

definition rpb_forward :: "relative_position_bias \<Rightarrow> tensor4 \<Rightarrow> error + tensor4" where
  "rpb_forward r qk_dots =
     (let (i, j) = shape_ij qk_dots;
          q_pos = map int [0..<i];
          k_pos = map int [0..<j];
          rel_pos = map (\<lambda>q. map (\<lambda>k. wrap64 (k - q)) k_pos) q_pos
      in and_then (relative_position_bucket rel_pos (rp_causal r) (rp_num_buckets r) 128)
           (\<lambda>rp_bucket.
         and_then (traverse (traverse (embedding_lookup (relative_attention_bias r))) rp_bucket)
           (\<lambda>values.
         let bias = map (\<lambda>h. map (map (\<lambda>v. v ! h)) values)
                      [0..<embedding_dim (relative_attention_bias r)]
         in traverse (\<lambda>dots_b.
              and_then (broadcast2 dots_b bias)
                (\<lambda>hs. Inr (map (\<lambda>(d, c). map2 (map2 (\<lambda>x y. fadd x (Fin y))) d c) hs)))
              qk_dots)))"

section \<open>ScaleNorm and PreNorm\<close>

text \<open>\<open>class ScaleNorm\<close>: \<open>x / norm(x).clamp(min = eps) * g\<close> along the last axis.\<close>

record scale_norm =
  eps :: real
  g :: real

definition scale_norm_vec :: "scale_norm \<Rightarrow> vec \<Rightarrow> vec" where
  "scale_norm_vec s x =
     (let n = fmax (fsqrt (fsum (map (\<lambda>v. fmul v v) x))) (Fin (eps s))
      in map (\<lambda>v. fmul (fdiv v n) (Fin (g s))) x)"

definition scale_norm_forward :: "scale_norm \<Rightarrow> tensor3 \<Rightarrow> error + tensor3" where
  "scale_norm_forward s x = Inr (map (map (scale_norm_vec s)) x)"

text \<open>
  The normalisation of a \<open>PreNorm\<close> is a \<open>ScaleNorm\<close> or the library's
  \<open>nn.LayerNorm\<close>; the latter is not code of this repository and is given by the
  function it computes.
\<close>

datatype norm = ScaleNorm scale_norm | LayerNorm "tensor3 \<Rightarrow> error + tensor3"

fun norm_forward :: "norm \<Rightarrow> tensor3 \<Rightarrow> error + tensor3" where
  "norm_forward (ScaleNorm s) x = scale_norm_forward s x"
| "norm_forward (LayerNorm f) x = f x"

text \<open>
  \<open>class PreNorm\<close>: \<open>fn\<close> is the wrapped module.  \<open>forward(x, **kwargs)\<close> normalises
  \<open>x\<close> and hands it to \<open>fn\<close> with the keyword arguments untouched; the call of the
  wrapped module with those arguments is the parameter \<open>call\<close>.
\<close>

record 'm pre_norm =
  fn :: 'm
  norm :: norm

definition pre_norm_forward ::
  "'m pre_norm \<Rightarrow> ('m \<Rightarrow> tensor3 \<Rightarrow> error + tensor3) \<Rightarrow> tensor3 \<Rightarrow> error + tensor3" where
  "pre_norm_forward p call x = and_then (norm_forward (norm p) x) (\<lambda>x. call (fn p) x)"

section \<open>GEGLU and FeedForward\<close>

text \<open>
  \<open>class GEGLU\<close>: \<open>proj\<close> is \<open>nn.Linear(dim_in, dim_out * 2)\<close>.  \<open>F.gelu\<close> is a
  function of the library and a parameter here.  In \<open>forward\<close> the second chunk
  is bound to \<open>gate\<close> and not used.
\<close>

record geglu =
  proj :: linear

definition geglu_vec :: "(fl \<Rightarrow> fl) \<Rightarrow> vec \<Rightarrow> error + vec" where
  "geglu_vec gelu y =
     and_then (chunk2 y) (\<lambda>(x, gate). Inr (map2 fmul x (map gelu x)))"

definition geglu_forward :: "(fl \<Rightarrow> fl) \<Rightarrow> geglu \<Rightarrow> tensor3 \<Rightarrow> error + tensor3" where
  "geglu_forward gelu m x =
     and_then (linear_forward (proj m) x) (traverse (traverse (geglu_vec gelu)))"

text \<open>
  \<open>class FeedForward\<close>: \<open>net\<close> is the sequence of \<open>project_in\<close>, \<open>nn.Dropout\<close> and a
  final \<open>nn.Linear\<close>.  The dropout layer is the identity: the model is of
  evaluation mode, and the rate is the default 0 wherever this file builds the
  module.
\<close>

datatype project_in = Linear_GELU linear | Gated geglu

record feed_forward =
  ff_project_in :: project_in
  ff_dropout :: real
  ff_out :: linear

fun project_in_forward :: "(fl \<Rightarrow> fl) \<Rightarrow> project_in \<Rightarrow> tensor3 \<Rightarrow> error + tensor3" where
  "project_in_forward gelu (Linear_GELU l) x =
     and_then (linear_forward l x) (\<lambda>y. Inr (map (map (map gelu)) y))"
| "project_in_forward gelu (Gated m) x = geglu_forward gelu m x"

definition feed_forward_forward ::
  "(fl \<Rightarrow> fl) \<Rightarrow> feed_forward \<Rightarrow> tensor3 \<Rightarrow> error + tensor3" where
  "feed_forward_forward gelu f x =
     and_then (project_in_forward gelu (ff_project_in f) x) (linear_forward (ff_out f))"

text \<open>
  \<open>FeedForward.__init__(dim, dim_out, mult, glu, dropout)\<close> with the initial
  parameters of its two linear layers given (\<open>mdim\<close> is the argument \<open>dim\<close>).
\<close>

definition feed_forward_init ::
  "nat \<Rightarrow> nat option \<Rightarrow> nat \<Rightarrow> bool \<Rightarrow> real \<Rightarrow>
   real list list \<Rightarrow> real list \<Rightarrow> real list list \<Rightarrow> real list \<Rightarrow> feed_forward" where
  "feed_forward_init mdim dim_out mult glu dropout w_in b_in w_out b_out =
     (let dim_out = default dim_out mdim;
          project_in =
            (if \<not> glu
             then Linear_GELU \<lparr>in_features = mdim, out_features = mdim * mult,
                                weight = w_in, bias = Some b_in\<rparr>
             else Gated \<lparr>proj = \<lparr>in_features = mdim, out_features = mdim * mult * 2,
                                  weight = w_in, bias = Some b_in\<rparr>\<rparr>)
      in \<lparr>ff_project_in = project_in, ff_dropout = dropout,
          ff_out = \<lparr>in_features = mdim * mult, out_features = dim_out,
                    weight = w_out, bias = Some b_out\<rparr>\<rparr>)"

section \<open>Attention\<close>

text \<open>
  \<open>class Attention\<close>: the attributes set by \<open>__init__\<close>.  \<open>to_q\<close> and \<open>to_kv\<close> have no
  bias, \<open>to_out\<close> has one.  The attribute \<open>mask\<close> (here \<open>self_mask\<close>) is stored and
  never read.
\<close>

record attention =
  scale :: real
  heads :: nat
  causal :: bool
  self_mask :: "bool list list option"
  to_q :: linear
  to_kv :: linear
  to_out :: linear

text \<open>
  \<open>Attention.__init__(dim, dim_head, heads, causal, mask)\<close> with the initial
  parameters of the three linear layers given (\<open>mdim\<close>, \<open>nheads\<close> and \<open>is_causal\<close>
  are the arguments \<open>dim\<close>, \<open>heads\<close> and \<open>causal\<close>).
  \<open>dim_head ** -0.5\<close> raises for \<open>dim_head = 0\<close>.
\<close>

definition attention_init ::
  "nat \<Rightarrow> nat \<Rightarrow> nat \<Rightarrow> bool \<Rightarrow> bool list list option \<Rightarrow>
   real list list \<Rightarrow> real list list \<Rightarrow> real list list \<Rightarrow> real list \<Rightarrow> error + attention" where
  "attention_init mdim dim_head nheads is_causal m w_q w_kv w_out b_out =
     (if dim_head = 0 then Inl ZeroDivisionError
      else
        (let inner_dim = dim_head * nheads
         in Inr \<lparr>scale = real dim_head powr (- 0.5), heads = nheads, causal = is_causal,
                 self_mask = m,
                 to_q = \<lparr>in_features = mdim, out_features = inner_dim,
                          weight = w_q, bias = None\<rparr>,
                 to_kv = \<lparr>in_features = mdim, out_features = inner_dim * 2,
                           weight = w_kv, bias = None\<rparr>,
                 to_out = \<lparr>in_features = inner_dim, out_features = mdim,
                            weight = w_out, bias = Some b_out\<rparr>\<rparr>))"

text \<open>\<open>rearrange(t, 'b n (h d) -> b h n d', h = h)\<close>, for one element of the batch.\<close>

definition split_heads :: "nat \<Rightarrow> 'a list \<Rightarrow> error + 'a list list" where
  "split_heads h v =
     (if h = 0 \<or> length v mod h \<noteq> 0 then Inl ShapeError
      else Inr (map (\<lambda>k. take (length v div h) (drop (k * (length v div h)) v)) [0..<h]))"

definition to_heads :: "nat \<Rightarrow> 'a list list \<Rightarrow> error + 'a list list list" where
  "to_heads h t =
     (if h = 0 then Inl ShapeError
      else and_then (traverse (split_heads h) t)
             (\<lambda>s. Inr (map (\<lambda>k. map (\<lambda>p. p ! k) s) [0..<h])))"

text \<open>\<open>rearrange(out, 'b h n d -> b n (h d)')\<close>, for one element of the batch.\<close>

definition merge_heads :: "'a list list list \<Rightarrow> 'a list list" where
  "merge_heads t = map (\<lambda>i. concat (map (\<lambda>hd. hd ! i) t)) [0..<seq_len t]"

text \<open>
  \<open>einsum('b h i d, b h j d -> b h i j', q, k)\<close>: the batch axes broadcast, the
  head axes have the same length \<open>h\<close>, and so have the feature axes in a module
  built by \<open>__init__\<close>.
\<close>

definition dotf :: "vec \<Rightarrow> vec \<Rightarrow> fl" where
  "dotf u v = fsum (map2 fmul u v)"

definition einsum_qk :: "tensor4 \<Rightarrow> tensor4 \<Rightarrow> error + tensor4" where
  "einsum_qk q k =
     and_then (broadcast2 q k)
       (\<lambda>bs. Inr (map (\<lambda>(qb, kb).
                    map2 (\<lambda>qs ks. map (\<lambda>qi. map (\<lambda>kj. dotf qi kj) ks) qs) qb kb) bs))"

text \<open>
  \<open>einsum('b h i j, b h j d -> b h i d', attn, v)\<close>: batch and head axes broadcast;
  \<open>d\<close> is the length of the feature axis of \<open>v\<close>.
\<close>

definition einsum_av :: "nat \<Rightarrow> tensor4 \<Rightarrow> tensor4 \<Rightarrow> error + tensor4" where
  "einsum_av d attn v =
     and_then (broadcast2 attn v)
       (traverse (\<lambda>(ab, vb).
          and_then (broadcast2 ab vb)
            (\<lambda>hs. Inr (map (\<lambda>(am, vm).
                         map (\<lambda>row. map (\<lambda>c. fsum (map2 (\<lambda>w vk. fmul w (vk ! c)) row vm))
                                       [0..<d]) am) hs))))"

text \<open>
  \<open>dots.masked_fill_(mask, float('-inf'))\<close> for a mask with axes (batch, queries,
  keys), its head axis of length 1 left out: the mask is fitted to the shape of
  \<open>dots\<close>, and the entries where the mask is \<open>True\<close> are overwritten.
\<close>

definition fill_row :: "vec \<Rightarrow> bool list \<Rightarrow> error + vec" where
  "fill_row drow mrow =
     and_then (expand_to (length drow) mrow)
       (\<lambda>ms. Inr (map2 (\<lambda>d m. if m then NInf else d) drow ms))"

definition fill_matrix :: "mat \<Rightarrow> bool list list \<Rightarrow> error + mat" where
  "fill_matrix dm mm =
     and_then (expand_to (length dm) mm)
       (\<lambda>ms. traverse (\<lambda>(drow, mrow). fill_row drow mrow) (zip dm ms))"

definition masked_fill :: "tensor4 \<Rightarrow> bool list list list \<Rightarrow> error + tensor4" where
  "masked_fill dots m =
     and_then (expand_to (length dots) m)
       (\<lambda>ms. traverse (\<lambda>(db, mb). traverse (\<lambda>dh. fill_matrix dh mb) db) (zip dots ms))"

text \<open>\<open>q_mask * k_mask\<close> after the two \<open>rearrange\<close> calls: entry \<open>(b, i, j)\<close> is the
  conjunction of \<open>q_mask[b, i]\<close> and \<open>k_mask[b, j]\<close>.\<close>

definition combine_masks :: "bool list list \<Rightarrow> bool list list \<Rightarrow> error + bool list list list" where
  "combine_masks q_mask k_mask =
     and_then (broadcast2 q_mask k_mask)
       (\<lambda>bs. Inr (map (\<lambda>(qr, kr). map (\<lambda>qi. map (\<lambda>kj. qi \<and> kj) kr) qr) bs))"

text \<open>\<open>torch.ones((n, n)).triu_(1).bool()\<close>: \<open>True\<close> strictly above the diagonal.\<close>

definition causal_mask :: "nat \<Rightarrow> bool list list" where
  "causal_mask n = map (\<lambda>i. map (\<lambda>j. i < j) [0..<n]) [0..<n]"

text \<open>
  \<open>Attention.forward(x, context, mask, context_mask, rel_pos)\<close>.  The steps follow
  the source in order, so the first failing one gives the error.  The argument
  \<open>mask\<close> is written \<open>mask'\<close>, here and in the stacks below.  The body is cut in
  two at the line \<open>attn = dots.softmax(dim = -1)\<close>: \<open>attention_dots\<close> is the part
  before it and gives the logits \<open>dots\<close> after the two \<open>masked_fill_\<close> calls together
  with the values \<open>v\<close>; \<open>attention_out\<close> is the part from that line on.
\<close>

definition attention_dots ::
  "attention \<Rightarrow> tensor3 \<Rightarrow> tensor3 option \<Rightarrow> bool list list option \<Rightarrow> bool list list option \<Rightarrow>
   relative_position_bias option \<Rightarrow> error + (tensor4 \<times> tensor4)" where
  "attention_dots a x context mask' context_mask rel_pos =
     (let b = length x; n = seq_len x; h = heads a;
          kv_input = default context x
      in and_then (linear_forward (to_q a) x) (\<lambda>q.
         and_then (linear_forward (to_kv a) kv_input) (\<lambda>kv.
         and_then (traverse (traverse chunk2) kv) (\<lambda>kv.
         and_then (traverse (to_heads h) q) (\<lambda>q.
         and_then (traverse (to_heads h) (map (map fst) kv)) (\<lambda>k.
         and_then (traverse (to_heads h) (map (map snd) kv)) (\<lambda>v.
         and_then (einsum_qk q k) (\<lambda>dots.
         let dots = map (map (map (map (\<lambda>d. fmul d (Fin (scale a)))))) dots
         in
         and_then (case rel_pos of None \<Rightarrow> Inr dots | Some r \<Rightarrow> rpb_forward r dots) (\<lambda>dots.
         and_then
           (if exists mask' \<or> exists context_mask then
              (let q_mask = default mask' (replicate b (replicate (fst (shape_ij dots)) True));
                   k_mask = default context_mask
                              (replicate b (replicate (snd (shape_ij dots)) True))
               in and_then (combine_masks q_mask k_mask) (masked_fill dots))
            else Inr dots) (\<lambda>dots.
         and_then
           (if causal a then masked_fill dots [causal_mask n] else Inr dots) (\<lambda>dots.
         Inr (dots, v))))))))))))"

definition attention_out :: "attention \<Rightarrow> tensor4 \<Rightarrow> tensor4 \<Rightarrow> error + tensor3" where
  "attention_out a dots v =
     (let attn = map (map (map softmax)) dots
      in and_then (einsum_av (out_features (to_kv a) div 2 div heads a) attn v) (\<lambda>out.
         let out = map merge_heads out
         in linear_forward (to_out a) out))"

definition attention_forward ::
  "attention \<Rightarrow> tensor3 \<Rightarrow> tensor3 option \<Rightarrow> bool list list option \<Rightarrow> bool list list option \<Rightarrow>
   relative_position_bias option \<Rightarrow> error + tensor3" where
  "attention_forward a x context mask' context_mask rel_pos =
     and_then (attention_dots a x context mask' context_mask rel_pos)
       (\<lambda>(dots, v). attention_out a dots v)"

text \<open>
  What \<open>__init__\<close> establishes for an attention module of model dimension \<open>mdim\<close>,
  with at least one head of at least one feature.
\<close>

definition attention_wf :: "nat \<Rightarrow> attention \<Rightarrow> bool" where
  "attention_wf mdim a =
     (\<exists>dim_head. 0 < dim_head \<and> 0 < heads a \<and>
        linear_wf (to_q a) \<and> linear_wf (to_kv a) \<and> linear_wf (to_out a) \<and>
        in_features (to_q a) = mdim \<and> out_features (to_q a) = dim_head * heads a \<and>
        in_features (to_kv a) = mdim \<and> out_features (to_kv a) = dim_head * heads a * 2 \<and>
        in_features (to_out a) = dim_head * heads a \<and> out_features (to_out a) = mdim)"

section \<open>Encoder and Decoder\<close>


text \<open>The residual step \<open>x = f(x) + x\<close>.\<close>

definition residual :: "(tensor3 \<Rightarrow> error + tensor3) \<Rightarrow> tensor3 \<Rightarrow> error + tensor3" where
  "residual f x = and_then (f x) (\<lambda>y. tensor_add y x)"



text \<open>
  \<open>class Decoder\<close>: each layer is a causal self-attention, an optional
  cross-attention (\<open>None\<close> when \<open>cross_attend\<close> is false) and a feed-forward module.
\<close>

record decoder =
  dec_dim :: nat
  dec_layers :: "(attention pre_norm \<times> attention pre_norm option \<times> feed_forward pre_norm) list"
  dec_rel_pos :: "relative_position_bias option"

fun decoder_loop ::
  "(fl \<Rightarrow> fl) \<Rightarrow> relative_position_bias option \<Rightarrow> tensor3 option \<Rightarrow> bool list list option \<Rightarrow>
   bool list list option \<Rightarrow>
   (attention pre_norm \<times> attention pre_norm option \<times> feed_forward pre_norm) list \<Rightarrow>
   tensor3 \<Rightarrow> error + tensor3" where
  "decoder_loop gelu rel_pos context mask' context_mask [] x = Inr x"
| "decoder_loop gelu rel_pos context mask' context_mask ((self_attn, cross_attn, ff) # layers) x =
     and_then
       (residual (pre_norm_forward self_attn
                    (\<lambda>a y. attention_forward a y None None None rel_pos)) x) (\<lambda>x.
     and_then
       (case cross_attn of
          None \<Rightarrow> Inr x
        | Some c \<Rightarrow>
            residual (pre_norm_forward c
                        (\<lambda>a y. attention_forward a y context mask' context_mask None)) x) (\<lambda>x.
     and_then
       (residual (pre_norm_forward ff (feed_forward_forward gelu)) x) (\<lambda>x.
     decoder_loop gelu rel_pos context mask' context_mask layers x)))"

definition decoder_forward ::
  "(fl \<Rightarrow> fl) \<Rightarrow> decoder \<Rightarrow> tensor3 \<Rightarrow> tensor3 option \<Rightarrow> bool list list option \<Rightarrow>
   bool list list option \<Rightarrow> error + tensor3" where
  "decoder_forward gelu d x context mask' context_mask =
     decoder_loop gelu (dec_rel_pos d) context mask' context_mask (dec_layers d) x"

section \<open>Constructors of the stacks\<close>

text \<open>
  \<open>RelativePositionBias.__init__(causal, num_buckets, max_distance, heads)\<close> with
  the initial table of the embedding given.
\<close>

definition relative_position_bias_init ::
  "bool \<Rightarrow> nat \<Rightarrow> int \<Rightarrow> nat \<Rightarrow> real list list \<Rightarrow> relative_position_bias" where
  "relative_position_bias_init is_causal num_buckets max_distance nheads table =
     \<lparr>rp_causal = is_causal, rp_num_buckets = int num_buckets, rp_max_distance = max_distance,
      relative_attention_bias =
        \<lparr>num_embeddings = num_buckets, embedding_dim = nheads, emb_weight = table\<rparr>\<rparr>"

text \<open>
  \<open>prenorm_fn = partial(PreNorm, dim, norm_class = norm_class)\<close>: a fresh
  \<open>ScaleNorm\<close> has \<open>eps = 1e-5\<close> and \<open>g = 1\<close>; a fresh \<open>nn.LayerNorm(dim)\<close> computes the
  function \<open>layer_norm\<close>.
\<close>

definition prenorm_fn :: "bool \<Rightarrow> (tensor3 \<Rightarrow> error + tensor3) \<Rightarrow> 'm \<Rightarrow> 'm pre_norm" where
  "prenorm_fn use_scalenorm layer_norm m =
     \<lparr>fn = m,
      norm = (if use_scalenorm then ScaleNorm \<lparr>eps = 1 / 100000, g = 1\<rparr>
              else LayerNorm layer_norm)\<rparr>"

text \<open>The initial parameters of one attention module and of one feed-forward
  module.\<close>

record attention_params =
  w_q :: "real list list"
  w_kv :: "real list list"
  w_out :: "real list list"
  b_out :: "real list"

record feed_forward_params =
  w_1 :: "real list list"
  b_1 :: "real list"
  w_2 :: "real list list"
  b_2 :: "real list"

definition attention_of ::
  "nat \<Rightarrow> nat \<Rightarrow> nat \<Rightarrow> bool \<Rightarrow> attention_params \<Rightarrow> error + attention" where
  "attention_of mdim dim_head nheads is_causal p =
     attention_init mdim dim_head nheads is_causal None (w_q p) (w_kv p) (w_out p) (b_out p)"

definition feed_forward_of :: "nat \<Rightarrow> bool \<Rightarrow> feed_forward_params \<Rightarrow> feed_forward" where
  "feed_forward_of mdim glu p =
     feed_forward_init mdim None 4 glu 0 (w_1 p) (b_1 p) (w_2 p) (b_2 p)"


text \<open>
  \<open>Decoder.__init__(dim, depth, dim_head, heads, cross_attend, use_scalenorm,
  ff_glu, rel_pos_bias)\<close>: three modules per iteration, the second one \<open>None\<close>
  unless \<open>cross_attend\<close>.
\<close>

definition decoder_init ::
  "nat \<Rightarrow> nat \<Rightarrow> nat \<Rightarrow> nat \<Rightarrow> bool \<Rightarrow> bool \<Rightarrow> bool \<Rightarrow> bool \<Rightarrow>
   (tensor3 \<Rightarrow> error + tensor3) \<Rightarrow>
   (nat \<Rightarrow> attention_params \<times> attention_params \<times> feed_forward_params) \<Rightarrow>
   real list list \<Rightarrow> error + decoder" where
  "decoder_init mdim depth dim_head nheads cross_attend use_scalenorm ff_glu rel_pos_bias
     layer_norm params table =
     and_then
       (traverse (\<lambda>k.
          and_then (attention_of mdim dim_head nheads True (fst (params k)))
            (\<lambda>a.
          and_then (if cross_attend
                    then and_then (attention_of mdim dim_head nheads False (fst (snd (params k))))
                           (\<lambda>c. Inr (Some (prenorm_fn use_scalenorm layer_norm c)))
                    else Inr None)
            (\<lambda>c. Inr (prenorm_fn use_scalenorm layer_norm a, c,
                      prenorm_fn use_scalenorm layer_norm
                        (feed_forward_of mdim ff_glu (snd (snd (params k))))))))
          [0..<depth])
       (\<lambda>layers.
          Inr \<lparr>dec_dim = mdim, dec_layers = layers,
               dec_rel_pos = (if rel_pos_bias
                              then Some (relative_position_bias_init True 32 128 8 table)
                              else None)\<rparr>)"

section \<open>The stack as a sequence of residual sublayer applications\<close>









section \<open>Properties of the bucketing function\<close>









lemma traverse_Inr_D:
  "traverse f xs = Inr ys \<Longrightarrow> list_all2 (\<lambda>x y. f x = Inr y) xs ys"
  by (induction xs arbitrary: ys) (auto split: sum.splits)

lemma traverse_Inr_I:
  "list_all2 (\<lambda>x y. f x = Inr y) xs ys \<Longrightarrow> traverse f xs = Inr ys"
  by (induction xs ys rule: list_all2_induct) auto

lemma traverse_total:
  "(\<And>x. x \<in> set xs \<Longrightarrow> \<exists>y. f x = Inr y \<and> P x y) \<Longrightarrow>
     \<exists>ys. traverse f xs = Inr ys \<and> list_all2 P xs ys"
proof (induction xs)
  case Nil
  then show ?case by simp
next
  case (Cons x xs)
  then obtain y where y: "f x = Inr y" "P x y" by auto
  from Cons obtain ys where "traverse f xs = Inr ys" "list_all2 P xs ys" by auto
  with y show ?case by simp
qed









section \<open>Properties of the modules and of the stacks\<close>

text \<open>
  Claim C9.  The \<open>max_distance\<close> handed to the constructor of
  \<open>RelativePositionBias\<close> has no effect on \<open>forward\<close>: two instances that differ
  only in \<open>max_distance\<close> give the same result on every input, and changing the
  attribute of an instance changes nothing (the bucketing is called with the
  default 128).
\<close>

theorem max_distance_ignored:
  "rpb_forward (relative_position_bias_init cs num_buckets max_distance1 nheads table) qk_dots =
   rpb_forward (relative_position_bias_init cs num_buckets max_distance2 nheads table) qk_dots \<and>
   rpb_forward (r\<lparr>rp_max_distance := max_distance1\<rparr>) qk_dots = rpb_forward r qk_dots"
  by (simp add: rpb_forward_def relative_position_bias_init_def)


lemma and_then_simps [simp]:
  "and_then (Inl e) f = Inl e" "and_then (Inr v) f = f v"
  by (simp_all add: and_then_def)

lemma decoder_loop_no_cross:
  assumes "\<forall>l \<in> set layers. fst (snd l) = None"
  shows "decoder_loop gelu rel_pos context mask' context_mask layers x =
         decoder_loop gelu rel_pos context2 mask2 context_mask2 layers x"
  using assms
proof (induction layers arbitrary: x)
  case Nil
  then show ?case by simp
next
  case (Cons l layers)
  obtain a c f where l: "l = (a, c, f)" by (cases l)
  with Cons.prems have c: "c = None" by simp
  from Cons have IH: "\<And>y. decoder_loop gelu rel_pos context mask' context_mask layers y =
         decoder_loop gelu rel_pos context2 mask2 context_mask2 layers y" by simp
  have IH': "decoder_loop gelu rel_pos context mask' context_mask layers =
         decoder_loop gelu rel_pos context2 mask2 context_mask2 layers"
    by (rule ext) (rule IH)
  show ?case by (simp add: l c IH')
qed


lemma traverse_set:
  "traverse f xs = Inr ys \<Longrightarrow> y \<in> set ys \<Longrightarrow> \<exists>x \<in> set xs. f x = Inr y"
  by (induction xs arbitrary: ys) (auto split: sum.splits)

lemma decoder_init_no_cross:
  assumes "decoder_init mdim depth dim_head nheads False use_scalenorm ff_glu rel_pos_bias
             layer_norm params table = Inr d"
  shows "\<forall>l \<in> set (dec_layers d). fst (snd l) = None"
proof -
  from assms obtain layers where
    t: "traverse (\<lambda>k.
          and_then (attention_of mdim dim_head nheads True (fst (params k)))
            (\<lambda>a. Inr (prenorm_fn use_scalenorm layer_norm a, None,
                      prenorm_fn use_scalenorm layer_norm
                        (feed_forward_of mdim ff_glu (snd (snd (params k)))))))
          [0..<depth] = Inr layers"
    and d: "dec_layers d = layers"
    by (auto simp: decoder_init_def and_then_def split: sum.splits)
  show ?thesis
  proof
    fix l assume "l \<in> set (dec_layers d)"
    with d traverse_set[OF t] obtain k where
      "and_then (attention_of mdim dim_head nheads True (fst (params k)))
            (\<lambda>a. Inr (prenorm_fn use_scalenorm layer_norm a, None,
                      prenorm_fn use_scalenorm layer_norm
                        (feed_forward_of mdim ff_glu (snd (snd (params k)))))) = Inr l"
      by blast
    then show "fst (snd l) = None" by (auto simp: and_then_def split: sum.splits)
  qed
qed

text \<open>
  Claim C10.  For a decoder built with \<open>cross_attend = False\<close>, \<open>forward\<close> gives the
  same result (output or error) for any two choices of \<open>context\<close>, \<open>mask\<close> and
  \<open>context_mask\<close>.
\<close>

theorem decoder_ignores_context:
  assumes "decoder_init mdim depth dim_head nheads False use_scalenorm ff_glu rel_pos_bias
             layer_norm params table = Inr d"
  shows "decoder_forward gelu d x context mask' context_mask =
         decoder_forward gelu d x context2 mask2 context_mask2"
  unfolding decoder_forward_def
  by (rule decoder_loop_no_cross) (rule decoder_init_no_cross[OF assms])











theorem max_distance_ignored_witness:
  "rpb_forward (relative_position_bias_init True 32 7 1 (replicate 32 [1])) [[[[Fin 0]]]] =
   rpb_forward (relative_position_bias_init True 32 128 1 (replicate 32 [1])) [[[[Fin 0]]]]"
  using max_distance_ignored [of True 32 7 1 "replicate 32 [1]" "[[[[Fin 0]]]]" 128] by simp

theorem decoder_ignores_context_witness:
  "\<exists>d. decoder_init 1 1 1 1 False True False False Inr
          (\<lambda>k. (\<lparr>w_q = [[1]], w_kv = [[1], [1]], w_out = [[1]], b_out = [0]\<rparr>,
                 \<lparr>w_q = [[1]], w_kv = [[1], [1]], w_out = [[1]], b_out = [0]\<rparr>,
                 \<lparr>w_1 = [[1], [1], [1], [1]], b_1 = [0, 0, 0, 0], w_2 = [[1, 1, 1, 1]],
                  b_2 = [0]\<rparr>)) [] = Inr d \<and>
       decoder_forward (\<lambda>v. v) d [[[Fin 1], [Fin 2]]] None None None =
       decoder_forward (\<lambda>v. v) d [[[Fin 1], [Fin 2]]]
         (Some [[[Fin 3]]]) (Some [[True, False]]) (Some [[True]])"
proof -
  obtain d where d: "decoder_init 1 1 1 1 False True False False Inr
          (\<lambda>k. (\<lparr>w_q = [[1]], w_kv = [[1], [1]], w_out = [[1]], b_out = [0]\<rparr>,
                 \<lparr>w_q = [[1]], w_kv = [[1], [1]], w_out = [[1]], b_out = [0]\<rparr>,
                 \<lparr>w_1 = [[1], [1], [1], [1]], b_1 = [0, 0, 0, 0], w_2 = [[1, 1, 1, 1]],
                  b_2 = [0]\<rparr>)) [] = Inr d"
    by (simp add: decoder_init_def attention_of_def attention_init_def)
  from decoder_ignores_context [OF d] d show ?thesis by blast
qed


section \<open>The gated feed-forward variant\<close>

lemma traverse_map:
  "(\<And>x. x \<in> set xs \<Longrightarrow> f x = Inr (h x)) \<Longrightarrow> traverse f xs = Inr (map h xs)"
  by (induction xs) auto

lemma linear_apply_ok:
  assumes "linear_wf l" "length v = in_features l"
  shows "\<exists>p. linear_apply l v = Inr p \<and> length p = out_features l"
  using assms by (auto simp: linear_apply_def linear_wf_def split: option.splits)

lemma linear_forward_ok:
  assumes wf: "linear_wf l"
    and x: "list_all (list_all (\<lambda>v. length v = in_features l)) x"
  shows "\<exists>y. linear_forward l x = Inr y \<and>
             list_all2 (list_all2 (\<lambda>v p. length p = out_features l)) x y"
  unfolding linear_forward_def
proof (rule traverse_total)
  fix s assume s: "s \<in> set x"
  show "\<exists>t. traverse (linear_apply l) s = Inr t \<and>
             list_all2 (\<lambda>v p. length p = out_features l) s t"
  proof (rule traverse_total)
    fix v assume "v \<in> set s"
    with s x have "length v = in_features l" by (auto simp: list_all_iff)
    with wf show "\<exists>p. linear_apply l v = Inr p \<and> length p = out_features l"
      by (rule linear_apply_ok)
  qed
qed

lemma geglu_vec_even:
  "length p = 2 * k \<Longrightarrow>
     geglu_vec gelu p = Inr (map2 fmul (take k p) (map gelu (take k p)))"
  by (simp add: geglu_vec_def chunk2_def)

lemma list_all2_map_eq:
  "list_all2 (\<lambda>a b. h b = h a) xs ys \<Longrightarrow> map h ys = map h xs"
  by (induction xs ys rule: list_all2_induct) auto

lemma list_all2_rightD:
  "list_all2 P xs ys \<Longrightarrow> y \<in> set ys \<Longrightarrow> \<exists>x \<in> set xs. P x y"
  by (induction xs ys rule: list_all2_induct) auto

text \<open>
  Claim C5.  In a feed-forward module built with \<open>glu = True\<close> the input projection
  has \<open>2 * dim * mult\<close> output features.  On an input whose feature axis has length
  \<open>dim\<close> the projection succeeds, every projected vector \<open>p\<close> has that length, and
  the gating stage returns \<open>h1 * GELU(h1)\<close> for the first half \<open>h1\<close> of \<open>p\<close>.  The
  second half has no effect: any projected tensor of the same shape with the same
  first halves gives the same result.
\<close>

theorem geglu_gate:
  assumes m: "ff_project_in (feed_forward_init mdim dim_out mult True dropout w_in b_in w_o b_o)
                = Gated m"
    and wf: "linear_wf (proj m)"
    and x: "list_all (list_all (\<lambda>v. length v = mdim)) x"
  shows "out_features (proj m) = 2 * (mdim * mult) \<and>
         (\<exists>y. linear_forward (proj m) x = Inr y \<and>
              list_all (list_all (\<lambda>p. length p = 2 * (mdim * mult))) y \<and>
              geglu_forward gelu m x =
                Inr (map (map (\<lambda>p. map2 fmul (take (mdim * mult) p)
                                      (map gelu (take (mdim * mult) p)))) y) \<and>
              (\<forall>y'. list_all2 (list_all2 (\<lambda>p p'. length p' = 2 * (mdim * mult) \<and>
                                            take (mdim * mult) p' = take (mdim * mult) p)) y y'
                    \<longrightarrow> traverse (traverse (geglu_vec gelu)) y' = geglu_forward gelu m x))"
proof -
  let ?k = "mdim * mult"
  let ?g = "\<lambda>p. map2 fmul (take ?k p) (map gelu (take ?k p))"
  from m have io: "in_features (proj m) = mdim" "out_features (proj m) = 2 * ?k"
    by (auto simp: feed_forward_init_def Let_def)
  from x io have "list_all (list_all (\<lambda>v. length v = in_features (proj m))) x" by simp
  from linear_forward_ok[OF wf this] obtain y where
    y: "linear_forward (proj m) x = Inr y"
    and sh: "list_all2 (list_all2 (\<lambda>v p. length p = out_features (proj m))) x y"
    by blast
  have len: "length p = 2 * ?k" if "s \<in> set y" "p \<in> set s" for s p
  proof -
    from list_all2_rightD[OF sh that(1)] obtain s0 where
      "list_all2 (\<lambda>(v::fl list) p. length (p::fl list) = out_features (proj m)) s0 s" by blast
    from list_all2_rightD[OF this that(2)] show ?thesis by (auto simp: io)
  qed
  have tr: "traverse (traverse (geglu_vec gelu)) t = Inr (map (map ?g) t)"
    if "\<And>s p. s \<in> set t \<Longrightarrow> p \<in> set s \<Longrightarrow> length p = 2 * ?k" for t
  proof (rule traverse_map[where h = "map ?g"])
    fix s assume s: "s \<in> set t"
    show "traverse (geglu_vec gelu) s = Inr (map ?g s)"
    proof (rule traverse_map[where h = ?g])
      fix p assume "p \<in> set s"
      with s that have "length p = 2 * ?k" by blast
      then show "geglu_vec gelu p = Inr (?g p)" by (rule geglu_vec_even)
    qed
  qed
  have fwd: "geglu_forward gelu m x = Inr (map (map ?g) y)"
    using tr[of y] len by (simp add: geglu_forward_def and_then_def y)
  have indep: "traverse (traverse (geglu_vec gelu)) y' = geglu_forward gelu m x"
    if h: "list_all2 (list_all2 (\<lambda>p p'. length p' = 2 * ?k \<and> take ?k p' = take ?k p)) y y'"
    for y'
  proof -
    have l': "length p = 2 * ?k" if "s \<in> set y'" "p \<in> set s" for s p
    proof -
      from list_all2_rightD[OF h that(1)] obtain s0 where
        "list_all2 (\<lambda>p p'. length p' = 2 * ?k \<and> take ?k p' = take ?k p) s0 s" by blast
      from list_all2_rightD[OF this that(2)] show ?thesis by auto
    qed
    have "list_all2 (\<lambda>s s'. map ?g s' = map ?g s) y y'"
      using h
      by (rule list_all2_mono) (rule list_all2_map_eq[where h = ?g], erule list_all2_mono, simp)
    then have "map (map ?g) y' = map (map ?g) y" by (rule list_all2_map_eq)
    with tr[of y'] l' fwd show ?thesis by simp
  qed
  have "list_all (list_all (\<lambda>p. length p = 2 * ?k)) y"
    using len by (auto simp: list_all_iff)
  with io y fwd indep show ?thesis by blast
qed

theorem geglu_gate_witness:
  "\<exists>m. ff_project_in (feed_forward_init 1 None 1 True 0 [[1], [2]] [0, 0] [[1]] [0]) = Gated m \<and>
        linear_wf (proj m) \<and>
        linear_forward (proj m) [[[Fin 1]]] = Inr [[[Fin 1, Fin 2]]] \<and>
        geglu_forward (\<lambda>v. v) m [[[Fin 1]]] = Inr [[[Fin 1]]] \<and>
        traverse (traverse (geglu_vec (\<lambda>v. v))) [[[Fin 1, Fin 7]]] =
          geglu_forward (\<lambda>v. v) m [[[Fin 1]]]"
proof -
  define m where "m = \<lparr>proj = \<lparr>in_features = 1, out_features = 1 * 1 * 2,
                                   weight = [[1], [2]], bias = Some [0, 0]\<rparr>\<rparr>"
  have m: "ff_project_in (feed_forward_init 1 None 1 True 0 [[1], [2]] [0, 0] [[1]] [0]) = Gated m"
    by (simp add: feed_forward_init_def m_def)
  have wf: "linear_wf (proj m)" by (simp add: linear_wf_def m_def)
  have x: "list_all (list_all (\<lambda>v. length v = 1)) [[[Fin 1]]]" by simp
  have y: "linear_forward (proj m) [[[Fin 1]]] = Inr [[[Fin 1, Fin 2]]]"
    by (simp add: linear_forward_def linear_apply_def m_def dot_def fsum_def)
  from geglu_gate [OF m wf x, of "\<lambda>v. v"] y
  have "geglu_forward (\<lambda>v. v) m [[[Fin 1]]] = Inr [[[Fin 1]]]"
    and "\<forall>y'. list_all2 (list_all2 (\<lambda>p p'. length p' = 2 * (1 * 1) \<and> take (1 * 1) p' = take (1 * 1) p))
                 [[[Fin 1, Fin 2]]] y'
          \<longrightarrow> traverse (traverse (geglu_vec (\<lambda>v. v))) y' = geglu_forward (\<lambda>v. v) m [[[Fin 1]]]"
    by auto
  from this(1) this(2)[rule_format, of "[[[Fin 1, Fin 7]]]"] m wf y show ?thesis
    by (intro exI[of _ m]) simp
qed

section \<open>The padding mask of the attention\<close>

lemmas attention_eval =
  attention_dots_def attention_out_def attention_forward_def
  linear_forward_def linear_apply_def dot_def fsum_def chunk2_def to_heads_def split_heads_def
  einsum_qk_def einsum_av_def broadcast2_def expand_to_def masked_fill_def fill_matrix_def
  fill_row_def combine_masks_def causal_mask_def merge_heads_def seq_len_def shape_ij_def
  softmax_def fsub_def dotf_def exists_def default_def and_then_def Let_def

text \<open>
  Claim C1.  The combined padding mask is the conjunction of the query mask and
  the key mask, and \<open>masked_fill_\<close> writes \<open>-inf\<close> where that conjunction is \<open>True\<close>,
  that is where the query and the key are both marked valid; the positions with
  an invalid side keep their logits.  The module below has one head of one
  feature and unit weights; the input has two positions, the first marked valid
  and the second invalid, for the queries and for the keys.  The only logit set
  to \<open>-inf\<close> is the one of the valid query and the valid key.  After the softmax
  the valid query gives weight 0 to the valid key and weight 1 to the invalid
  key, the invalid query gives weight 1/2 to each key, and the output at the
  valid query is the value of the invalid key.
\<close>

theorem padding_mask_polarity:
  "attention_init 1 1 1 False None [[1]] [[1], [1]] [[1]] [0] =
     Inr \<lparr>scale = 1, heads = 1, causal = False, self_mask = None,
          to_q = \<lparr>in_features = 1, out_features = 1, weight = [[1]], bias = None\<rparr>,
          to_kv = \<lparr>in_features = 1, out_features = 2, weight = [[1], [1]], bias = None\<rparr>,
          to_out = \<lparr>in_features = 1, out_features = 1, weight = [[1]], bias = Some [0]\<rparr>\<rparr> \<and>
   attention_dots
       \<lparr>scale = 1, heads = 1, causal = False, self_mask = None,
        to_q = \<lparr>in_features = 1, out_features = 1, weight = [[1]], bias = None\<rparr>,
        to_kv = \<lparr>in_features = 1, out_features = 2, weight = [[1], [1]], bias = None\<rparr>,
        to_out = \<lparr>in_features = 1, out_features = 1, weight = [[1]], bias = Some [0]\<rparr>\<rparr>
       [[[Fin 1], [Fin 0]]] None (Some [[True, False]]) (Some [[True, False]]) None =
     Inr ([[[[NInf, Fin 0], [Fin 0, Fin 0]]]], [[[[Fin 1], [Fin 0]]]]) \<and>
   map (map (map softmax)) [[[[NInf, Fin 0], [Fin 0, Fin 0]]]] =
     [[[[Fin 0, Fin 1], [Fin (1 / 2), Fin (1 / 2)]]]] \<and>
   attention_forward
       \<lparr>scale = 1, heads = 1, causal = False, self_mask = None,
        to_q = \<lparr>in_features = 1, out_features = 1, weight = [[1]], bias = None\<rparr>,
        to_kv = \<lparr>in_features = 1, out_features = 2, weight = [[1], [1]], bias = None\<rparr>,
        to_out = \<lparr>in_features = 1, out_features = 1, weight = [[1]], bias = Some [0]\<rparr>\<rparr>
       [[[Fin 1], [Fin 0]]] None (Some [[True, False]]) (Some [[True, False]]) None =
     Inr [[[Fin 0], [Fin (1 / 2)]]]"
  by (simp add: attention_init_def attention_eval)

end
